theory Spec2Isabelle
  imports Main "HOL-Library.Sublist"
begin

section \<open>Python values, exceptions and dictionaries\<close>

text \<open>
  The embedding follows \<^verbatim>\<open>src/main.py\<close>. Python raises are values: a function that
  can raise returns \<open>exn + 'a\<close> (\<open>Inl\<close> the exception), a method that mutates
  \<^verbatim>\<open>self\<close> returns the updated object together with \<open>exn option\<close> (\<open>None\<close>: it
  returned normally), because the mutations made before a raise stay on the object.

  An exception is its class, as far as the two handlers of the source tell classes
  apart (\<^verbatim>\<open>except KeyError\<close> and \<^verbatim>\<open>except Exception\<close>), and the text that
  \<^verbatim>\<open>str(e)\<close> gives. \<open>NonException\<close> stands for the classes below
  \<^verbatim>\<open>BaseException\<close> that are not below \<^verbatim>\<open>Exception\<close>
  (\<^verbatim>\<open>KeyboardInterrupt\<close>, \<^verbatim>\<open>SystemExit\<close>).
\<close>

datatype exn_class = KeyError | ValueError | OtherException | NonException

datatype exn = Exn (cls: exn_class) (str_of: string)

definition is_KeyError :: "exn \<Rightarrow> bool" where
  "is_KeyError e = (cls e = KeyError)"

definition is_Exception :: "exn \<Rightarrow> bool" where
  "is_Exception e = (cls e \<noteq> NonException)"

text \<open>
  Dictionary keys and the argument of \<^verbatim>\<open>FittedMLModel.predict\<close> are untyped in
  the source, and \<^verbatim>\<open>str(index)\<close> is applied to both \<^verbatim>\<open>int\<close> (the
  \<^verbatim>\<open>enumerate\<close> index) and \<^verbatim>\<open>str\<close> values, so both kinds are modelled.
\<close>

datatype pyval = PStr string | PInt int

definition digit_char :: "nat \<Rightarrow> char" where
  "digit_char d = char_of (48 + d)"

fun str_nat :: "nat \<Rightarrow> string" where
  "str_nat n = (if n < 10 then [digit_char n] else str_nat (n div 10) @ [digit_char (n mod 10)])"

declare str_nat.simps [simp del]

definition str_int :: "int \<Rightarrow> string" where
  "str_int i = (if i < 0 then CHR ''-'' # str_nat (nat (- i)) else str_nat (nat i))"

text \<open>The number that a string of decimal digits denotes, to read \<open>str_nat\<close> back.\<close>

definition nat_of_str :: "string \<Rightarrow> nat" where
  "nat_of_str s = foldl (\<lambda>acc c. 10 * acc + (of_char c - 48)) 0 s"

fun py_str :: "pyval \<Rightarrow> string" where
  "py_str (PStr s) = s"
| "py_str (PInt i) = str_int i"

text \<open>
  A \<^verbatim>\<open>dict\<close> is an association list in insertion order with distinct keys.
  \<^verbatim>\<open>d[k] = v\<close> replaces the value of a key that is present, in place, and appends a
  new key at the end.
\<close>

type_synonym dict = "(pyval \<times> string) list"

fun dict_set :: "dict \<Rightarrow> pyval \<Rightarrow> string \<Rightarrow> dict" where
  "dict_set [] k v = [(k, v)]"
| "dict_set ((k', v') # d) k v =
     (if k' = k then (k', v) # d else (k', v') # dict_set d k v)"

definition dict_in :: "pyval \<Rightarrow> dict \<Rightarrow> bool" where
  "dict_in k d = (map_of d k \<noteq> None)"

section \<open>The model: \<^verbatim>\<open>FittedMLModel\<close>\<close>

datatype FittedMLModel = FittedMLModel (data: dict)

definition has_data :: "FittedMLModel \<Rightarrow> pyval \<Rightarrow> bool" where
  "has_data self index = dict_in index (data self)"

definition placeholder :: string where
  "placeholder = ''No such sentence in the original dataset''"

text \<open>
  \<^verbatim>\<open>self.data[str(index)]\<close> raises \<^verbatim>\<open>KeyError(str(index))\<close> when the key is
  missing; \<^verbatim>\<open>str\<close> of that exception is the key between single quotes.
\<close>

definition FittedMLModel_predict :: "FittedMLModel \<Rightarrow> pyval \<Rightarrow> exn + string" where
  "FittedMLModel_predict self index =
     (if dict_in index (data self) then
        (case map_of (data self) (PStr (py_str index)) of
           None \<Rightarrow> Inl (Exn KeyError ([CHR 0x27] @ py_str index @ [CHR 0x27]))
         | Some v \<Rightarrow> Inr v)
      else Inr placeholder)"

text \<open>
  \<^verbatim>\<open>_prepare_model_data\<close>: the loop over \<^verbatim>\<open>enumerate(texts)\<close> carries the next
  index and the dictionary built so far.
\<close>

fun prepare_loop :: "nat \<Rightarrow> string list \<Rightarrow> dict \<Rightarrow> dict" where
  "prepare_loop idx [] d = d"
| "prepare_loop idx (text # texts) d =
     prepare_loop (Suc idx) texts (dict_set d (PStr (str_nat idx)) text)"

definition prepare_model_data :: "string list \<Rightarrow> dict" where
  "prepare_model_data texts = prepare_loop 0 texts []"

section \<open>The collaborators outside the file\<close>

text \<open>
  The storage classes, \<^verbatim>\<open>get_env\<close> and \<^verbatim>\<open>pickle\<close> are library code. A storage
  handle is the constructor call that made it: \<open>LocalStorage\<close> holds the string given
  to \<^verbatim>\<open>Path\<close>, \<open>S3Storage\<close> its arguments \<^verbatim>\<open>bucket\<close>,
  \<^verbatim>\<open>data_dir\<close>, \<^verbatim>\<open>service_name\<close>, \<^verbatim>\<open>region\<close>, \<^verbatim>\<open>access_key\<close>,
  \<^verbatim>\<open>secret_key\<close> and \<^verbatim>\<open>endpoint\<close>. Every call that can reach a file system
  or a network is recorded, in order, as an \<open>io_event\<close>, whatever its outcome.
\<close>

datatype storage =
    LocalStorage string
  | S3Storage string string string string string string string

text \<open>The root under which a handle resolves its keys.\<close>

fun root_of :: "storage \<Rightarrow> string" where
  "root_of (LocalStorage p) = p"
| "root_of (S3Storage b data_dir sn r ak sk ep) = data_dir"

datatype io_event =
    New storage
  | Dump storage string FittedMLModel
  | Load storage string
  | Remove storage string

text \<open>
  What the library does is a parameter of the model. The outcome of a storage call may
  depend on the calls made before it. \<open>get_env name default\<close> is
  \<^verbatim>\<open>get_env(name)\<close> for \<open>default = None\<close> and \<^verbatim>\<open>get_env(name, d)\<close> for
  \<open>Some d\<close>; the process environment does not change while the task runs.
  \<open>dump_raises\<close> is the whole statement
  \<^verbatim>\<open>with storage.open(path, 'wb') as fout: pickle.dump(model, fout)\<close>, and
  \<open>load_result\<close> is \<^verbatim>\<open>storage.open(path, 'rb')\<close>, entering the block and
  \<^verbatim>\<open>pickle.loads(fin.read())\<close>; \<open>load_exit_raises\<close> is the exit of that block,
  which comes after the assignment to \<^verbatim>\<open>self.model\<close>. The exit of a block does not
  swallow an exception raised inside it, as for a file.
  \<open>build_raises\<close> says whether the interpreter raises while the model is built
  (\<^verbatim>\<open>MemoryError\<close>, an interrupt); the loop itself has no raise.
\<close>

record platform =
  local_name :: string
  s3_name :: string
  get_env :: "string \<Rightarrow> string option \<Rightarrow> exn + string"
  new_raises :: "io_event list \<Rightarrow> storage \<Rightarrow> exn option"
  dump_raises :: "io_event list \<Rightarrow> storage \<Rightarrow> string \<Rightarrow> FittedMLModel \<Rightarrow> exn option"
  load_result :: "io_event list \<Rightarrow> storage \<Rightarrow> string \<Rightarrow> exn + FittedMLModel"
  load_exit_raises :: "io_event list \<Rightarrow> storage \<Rightarrow> string \<Rightarrow> exn option"
  remove_raises :: "io_event list \<Rightarrow> storage \<Rightarrow> string \<Rightarrow> exn option"
  build_raises :: "string list \<Rightarrow> exn option"

record sys =
  io :: "io_event list"
  logged :: "string list"

definition new_storage :: "platform \<Rightarrow> storage \<Rightarrow> sys \<Rightarrow> (exn + storage) \<times> sys" where
  "new_storage P st s =
     (let s1 = s\<lparr>io := io s @ [New st]\<rparr> in
      case new_raises P (io s) st of
        Some e \<Rightarrow> (Inl e, s1)
      | None \<Rightarrow> (Inr st, s1))"

definition LOGGER_error :: "string \<Rightarrow> sys \<Rightarrow> sys" where
  "LOGGER_error msg s = s\<lparr>logged := logged s @ [msg]\<rparr>"

section \<open>The task: \<^verbatim>\<open>FitActionExample\<close>\<close>

record FitActionExample =
  model :: FittedMLModel
  storage :: storage
  model_path :: string
  is_fitted_model :: bool

text \<open>
  \<^verbatim>\<open>_get_storage\<close>. The keyword arguments of \<^verbatim>\<open>S3Storage(...)\<close> are evaluated in
  the order they are written.
\<close>

definition get_storage :: "platform \<Rightarrow> string \<Rightarrow> sys \<Rightarrow> (exn + storage) \<times> sys" where
  "get_storage P model_dir s =
     (case get_env P ''MLP_STORAGE_TYPE'' None of
        Inl e \<Rightarrow> (Inl e, s)
      | Inr storage_type \<Rightarrow>
     (case (if length model_dir = 0 then get_env P ''MLP_STORAGE_DIR'' None else Inr model_dir) of
        Inl e \<Rightarrow> (Inl e, s)
      | Inr storage_dir \<Rightarrow>
        if storage_type = local_name P then
          new_storage P (LocalStorage storage_dir) s
        else if storage_type = s3_name P then
          (case get_env P ''MLP_S3_BUCKET'' None of
             Inl e \<Rightarrow> (Inl e, s)
           | Inr bucket \<Rightarrow>
          (case get_env P ''MLP_S3_REGION'' (Some '''') of
             Inl e \<Rightarrow> (Inl e, s)
           | Inr region \<Rightarrow>
          (case get_env P ''MLP_S3_ACCESS_KEY'' None of
             Inl e \<Rightarrow> (Inl e, s)
           | Inr access_key \<Rightarrow>
          (case get_env P ''MLP_S3_SECRET_KEY'' None of
             Inl e \<Rightarrow> (Inl e, s)
           | Inr secret_key \<Rightarrow>
          (case get_env P ''MLP_S3_ENDPOINT'' None of
             Inl e \<Rightarrow> (Inl e, s)
           | Inr endpoint \<Rightarrow>
             new_storage P
               (S3Storage bucket storage_dir ''s3'' region access_key secret_key endpoint) s)))))
        else
          (Inl (Exn ValueError (''storage_type '' @ storage_type @ '' is invalid.'')), s)))"

definition save_state :: "platform \<Rightarrow> FitActionExample \<Rightarrow> sys \<Rightarrow> exn option \<times> sys" where
  "save_state P self s =
     (dump_raises P (io s) (storage self) (model_path self) (model self),
      s\<lparr>io := io s @ [Dump (storage self) (model_path self) (model self)]\<rparr>)"

definition load_state ::
  "platform \<Rightarrow> FitActionExample \<Rightarrow> sys \<Rightarrow> exn option \<times> FitActionExample \<times> sys" where
  "load_state P self s =
     (let s1 = s\<lparr>io := io s @ [Load (storage self) (model_path self)]\<rparr> in
      case load_result P (io s) (storage self) (model_path self) of
        Inl e \<Rightarrow> (Some e, self, s1)
      | Inr m \<Rightarrow>
          (case load_exit_raises P (io s) (storage self) (model_path self) of
             Some e \<Rightarrow> (Some e, self\<lparr>model := m\<rparr>, s1)
           | None \<Rightarrow> (None, self\<lparr>model := m, is_fitted_model := True\<rparr>, s1)))"

text \<open>
  \<^verbatim>\<open>__init__\<close>. The call of the base class's initialiser is library code and is
  left out. When the constructor raises there is no object.
\<close>

definition init :: "platform \<Rightarrow> sys \<Rightarrow> (exn + FitActionExample) \<times> sys" where
  "init P s =
     (case get_storage P [] s of
        (Inl e, s1) \<Rightarrow> (Inl e, s1)
      | (Inr st, s1) \<Rightarrow>
          (let self = \<lparr>model = FittedMLModel [], storage = st, model_path = ''model.pkl'',
                       is_fitted_model = False\<rparr> in
           case load_state P self s1 of
             (None, self', s2) \<Rightarrow> (Inr self', s2)
           | (Some e, self', s2) \<Rightarrow>
               if is_KeyError e then
                 (Inr self',
                  LOGGER_error (''Unable to load saved state, error message: '' @ str_of e) s2)
               else (Inl e, s2)))"

definition is_fitted :: "FitActionExample \<Rightarrow> bool" where
  "is_fitted self = is_fitted_model self"

text \<open>
  \<^verbatim>\<open>fit\<close>: \<open>fit_try\<close> is the body of the \<^verbatim>\<open>try\<close> block. Of the arguments only
  \<^verbatim>\<open>train_data.texts\<close> and \<^verbatim>\<open>model_dir\<close> are read.
\<close>

definition fit_try ::
  "platform \<Rightarrow> string list \<Rightarrow> FitActionExample \<Rightarrow> sys \<Rightarrow> exn option \<times> FitActionExample \<times> sys" where
  "fit_try P texts self s =
     (case build_raises P texts of
        Some e \<Rightarrow> (Some e, self, s)
      | None \<Rightarrow>
          (let self1 = self\<lparr>model := FittedMLModel (prepare_model_data texts)\<rparr> in
           case save_state P self1 s of
             (Some e, s1) \<Rightarrow> (Some e, self1, s1)
           | (None, s1) \<Rightarrow> (None, self1\<lparr>is_fitted_model := True\<rparr>, s1)))"

definition fit ::
  "platform \<Rightarrow> string list \<Rightarrow> string \<Rightarrow> FitActionExample \<Rightarrow> sys \<Rightarrow>
     exn option \<times> FitActionExample \<times> sys" where
  "fit P texts model_dir self s =
     (case get_storage P model_dir s of
        (Inl e, s1) \<Rightarrow> (Some e, self, s1)
      | (Inr st, s1) \<Rightarrow>
          (case fit_try P texts (self\<lparr>storage := st\<rparr>) s1 of
             (None, self2, s2) \<Rightarrow> (None, self2, s2)
           | (Some e, self2, s2) \<Rightarrow>
               if is_Exception e then
                 (None, self2, LOGGER_error (''Fit execution error: '' @ str_of e) s2)
               else (Some e, self2, s2)))"

text \<open>
  \<^verbatim>\<open>predict\<close>. \<^verbatim>\<open>str(predict_result)\<close> is the identity, the result being a string.
\<close>

datatype Item = Item (val: string)
datatype Items = Items (items: "Item list")
datatype ItemsCollection = ItemsCollection (items_list: "Items list")

fun predict_loop :: "FittedMLModel \<Rightarrow> string list \<Rightarrow> Items list \<Rightarrow> exn + Items list" where
  "predict_loop m [] result_list = Inr result_list"
| "predict_loop m (text # texts) result_list =
     (if \<not> has_data m (PStr text) then Inl (Exn ValueError ''No such id here, try 0 or 1'')
      else
        (case FittedMLModel_predict m (PStr text) of
           Inl e \<Rightarrow> Inl e
         | Inr predict_result \<Rightarrow>
             predict_loop m texts (result_list @ [Items [Item predict_result]])))"

definition predict :: "FitActionExample \<Rightarrow> string list \<Rightarrow> exn + ItemsCollection" where
  "predict self texts =
     (case predict_loop (model self) texts [] of
        Inl e \<Rightarrow> Inl e
      | Inr result_list \<Rightarrow> Inr (ItemsCollection result_list))"

definition prune_state :: "platform \<Rightarrow> string \<Rightarrow> FitActionExample \<Rightarrow> sys \<Rightarrow> exn option \<times> sys" where
  "prune_state P model_dir self s =
     (case (if length model_dir > 0 then Inr model_dir else get_env P ''MLP_STORAGE_DIR'' None) of
        Inl e \<Rightarrow> (Some e, s)
      | Inr remove_path \<Rightarrow>
          (case get_storage P remove_path s of
             (Inl e, s1) \<Rightarrow> (Some e, s1)
           | (Inr st, s1) \<Rightarrow>
               (remove_raises P (io s1) st (model_path self),
                s1\<lparr>io := io s1 @ [Remove st (model_path self)]\<rparr>)))"

section \<open>A platform to run the task on\<close>

text \<open>
  An in-memory backend for concrete runs: the environment is an association list, no
  call fails but a read of a blob that is not there, which raises \<open>missing\<close>, and the
  blob at a location is the last one written there and not removed since.
\<close>

definition stored :: "io_event list \<Rightarrow> storage \<Rightarrow> string \<Rightarrow> FittedMLModel option" where
  "stored h st p =
     foldl (\<lambda>acc ev. case ev of
                Dump st' p' m \<Rightarrow> if st' = st \<and> p' = p then Some m else acc
              | Remove st' p' \<Rightarrow> if st' = st \<and> p' = p then None else acc
              | _ \<Rightarrow> acc) None h"

definition mem_platform :: "(string \<times> string) list \<Rightarrow> exn \<Rightarrow> platform" where
  "mem_platform environ missing =
     \<lparr>local_name = ''local'', s3_name = ''s3'',
      get_env = (\<lambda>name default. case map_of environ name of
                   Some v \<Rightarrow> Inr v
                 | None \<Rightarrow> (case default of
                      Some d \<Rightarrow> Inr d
                    | None \<Rightarrow> Inl (Exn ValueError (name @ '' is not set'')))),
      new_raises = (\<lambda>h st. None),
      dump_raises = (\<lambda>h st p m. None),
      load_result = (\<lambda>h st p. case stored h st p of None \<Rightarrow> Inl missing | Some m \<Rightarrow> Inr m),
      load_exit_raises = (\<lambda>h st p. None),
      remove_raises = (\<lambda>h st p. case stored h st p of None \<Rightarrow> Some missing | Some m \<Rightarrow> None),
      build_raises = (\<lambda>texts. None)\<rparr>"

definition local_env :: "(string \<times> string) list" where
  "local_env = [(''MLP_STORAGE_TYPE'', ''local''), (''MLP_STORAGE_DIR'', ''/tmp/models'')]"

definition ftp_env :: "(string \<times> string) list" where
  "ftp_env = [(''MLP_STORAGE_TYPE'', ''ftp''), (''MLP_STORAGE_DIR'', ''/tmp/models'')]"

definition blob_missing :: exn where
  "blob_missing = Exn KeyError ''model.pkl''"

definition local_platform :: platform where
  "local_platform = mem_platform local_env blob_missing"

definition ftp_platform :: platform where
  "ftp_platform = mem_platform ftp_env blob_missing"

text \<open>
  The same backend with a build that runs out of memory; and backends on which every
  write fails and leaves no blob, one with a full disk, one interrupted from the
  keyboard.
\<close>

definition build_fail_platform :: platform where
  "build_fail_platform =
     local_platform\<lparr>build_raises := (\<lambda>texts. Some (Exn OtherException ''out of memory''))\<rparr>"

definition dump_fail_platform :: platform where
  "dump_fail_platform =
     local_platform\<lparr>dump_raises := (\<lambda>h st p m. Some (Exn OtherException ''disk full'')),
                    load_result := (\<lambda>h st p. Inl blob_missing)\<rparr>"

definition interrupt_platform :: platform where
  "interrupt_platform =
     local_platform\<lparr>dump_raises := (\<lambda>h st p m. Some (Exn NonException ''KeyboardInterrupt'')),
                    load_result := (\<lambda>h st p. Inl blob_missing)\<rparr>"

definition sys0 :: sys where
  "sys0 = \<lparr>io = [], logged = []\<rparr>"

text \<open>The task as \<^verbatim>\<open>__init__\<close> leaves it on an empty root, and after a fit.\<close>

definition task0 :: FitActionExample where
  "task0 = \<lparr>model = FittedMLModel [], storage = LocalStorage ''/tmp/models'',
            model_path = ''model.pkl'', is_fitted_model = False\<rparr>"

definition task_ab :: FitActionExample where
  "task_ab = fst (snd (fit local_platform [''a'', ''b''] [] task0 sys0))"

definition sys_ab :: sys where
  "sys_ab = snd (snd (fit local_platform [''a'', ''b''] [] task0 sys0))"

section \<open>Decimal strings and the dictionary that \<^verbatim>\<open>_prepare_model_data\<close> builds\<close>

lemma digit_val: "d < 10 \<Longrightarrow> (of_char (digit_char d) :: nat) - 48 = d"
  by (simp add: digit_char_def)

lemma nat_of_str_str_nat: "nat_of_str (str_nat n) = n"
proof (induction n rule: str_nat.induct)
  case (1 n)
  show ?case
  proof (cases "n < 10")
    case True
    then show ?thesis
      by (subst str_nat.simps) (simp add: nat_of_str_def digit_val)
  next
    case False
    have "nat_of_str (str_nat n) = 10 * nat_of_str (str_nat (n div 10)) + (n mod 10)"
      using False by (subst str_nat.simps) (simp add: nat_of_str_def digit_val)
    also have "\<dots> = 10 * (n div 10) + n mod 10"
      using 1 False by simp
    finally show ?thesis by simp
  qed
qed

lemma str_nat_inj: "str_nat m = str_nat n \<Longrightarrow> m = n"
  by (metis nat_of_str_str_nat)

lemma dict_set_fresh: "k \<notin> fst ` set d \<Longrightarrow> dict_set d k v = d @ [(k, v)]"
  by (induction d) auto

lemma prepare_loop_append:
  "\<forall>k \<in> fst ` set d. \<exists>j<idx. k = PStr (str_nat j) \<Longrightarrow>
   prepare_loop idx texts d = d @ map (\<lambda>i. (PStr (str_nat (idx + i)), texts ! i)) [0..<length texts]"
proof (induction texts arbitrary: idx d)
  case Nil
  then show ?case by simp
next
  case (Cons t ts)
  have fresh: "PStr (str_nat idx) \<notin> fst ` set d"
  proof
    assume "PStr (str_nat idx) \<in> fst ` set d"
    then obtain j where "j < idx" "PStr (str_nat idx) = PStr (str_nat j)"
      using Cons.prems by blast
    then show False using str_nat_inj by fastforce
  qed
  let ?d = "d @ [(PStr (str_nat idx), t)]"
  have inv: "\<forall>k \<in> fst ` set ?d. \<exists>j<Suc idx. k = PStr (str_nat j)"
    using Cons.prems by (auto intro: less_SucI)
  have "prepare_loop idx (t # ts) d = prepare_loop (Suc idx) ts ?d"
    by (simp add: dict_set_fresh [OF fresh])
  also have "\<dots> = ?d @ map (\<lambda>i. (PStr (str_nat (Suc idx + i)), ts ! i)) [0..<length ts]"
    by (rule Cons.IH [OF inv])
  also have "\<dots> = d @ map (\<lambda>i. (PStr (str_nat (idx + i)), (t # ts) ! i)) [0..<length (t # ts)]"
    by (simp add: upt_conv_Cons map_Suc_upt [symmetric] del: upt_Suc)
  finally show ?case .
qed

lemma prepare_model_data_eq:
  "prepare_model_data texts = map (\<lambda>i. (PStr (str_nat i), texts ! i)) [0..<length texts]"
  using prepare_loop_append [of "[]" 0 texts] by (simp add: prepare_model_data_def)

lemma prepare_model_data_keys_distinct: "distinct (map fst (prepare_model_data texts))"
  by (auto simp: prepare_model_data_eq distinct_map comp_def inj_on_def dest: str_nat_inj)

lemma map_of_prepare_model_data:
  "i < length texts \<Longrightarrow> map_of (prepare_model_data texts) (PStr (str_nat i)) = Some (texts ! i)"
proof -
  assume "i < length texts"
  then have "(PStr (str_nat i), texts ! i) \<in> set (prepare_model_data texts)"
    by (auto simp: prepare_model_data_eq)
  then show ?thesis
    using prepare_model_data_keys_distinct by simp
qed

section \<open>Lookups in the model and the loop of \<^verbatim>\<open>predict\<close>\<close>

lemma has_data_map_of: "has_data m k = (\<exists>v. map_of (data m) k = Some v)"
  by (simp add: has_data_def dict_in_def)

lemma predict_str_key:
  "FittedMLModel_predict m (PStr k) =
     Inr (case map_of (data m) (PStr k) of None \<Rightarrow> placeholder | Some v \<Rightarrow> v)"
  by (simp add: FittedMLModel_predict_def dict_in_def split: option.splits)

lemma predict_absent: "\<not> has_data m key \<Longrightarrow> FittedMLModel_predict m key = Inr placeholder"
  by (simp add: FittedMLModel_predict_def has_data_def)

lemma predict_loop_present:
  "\<forall>t \<in> set pre. has_data m (PStr t) \<Longrightarrow>
   predict_loop m (pre @ rest) acc =
     predict_loop m rest (acc @ map (\<lambda>t. Items [Item (the (map_of (data m) (PStr t)))]) pre)"
proof (induction pre arbitrary: acc)
  case Nil
  then show ?case by simp
next
  case (Cons t ts)
  then obtain v where v: "map_of (data m) (PStr t) = Some v"
    by (auto simp: has_data_map_of)
  have "predict_loop m ((t # ts) @ rest) acc = predict_loop m (ts @ rest) (acc @ [Items [Item v]])"
    using Cons.prems v by (simp add: predict_str_key)
  also have "\<dots> = predict_loop m rest
      ((acc @ [Items [Item v]]) @ map (\<lambda>t. Items [Item (the (map_of (data m) (PStr t)))]) ts)"
    using Cons.prems by (intro Cons.IH) simp
  finally show ?case by (simp add: v)
qed

lemma predict_all_present:
  "\<forall>t \<in> set texts. has_data (model self) (PStr t) \<Longrightarrow>
   predict self texts =
     Inr (ItemsCollection (map (\<lambda>t. Items [Item (the (map_of (data (model self)) (PStr t)))]) texts))"
  using predict_loop_present [of texts "model self" "[]" "[]"] by (simp add: predict_def)

section \<open>Backend resolution and the steps of \<^verbatim>\<open>fit\<close>\<close>

lemma new_storage_cases:
  "new_storage P st s = (r, s1) \<Longrightarrow>
     s1 = s\<lparr>io := io s @ [New st]\<rparr> \<and> (r = Inr st \<or> (\<exists>e. r = Inl e))"
  by (auto simp: new_storage_def Let_def split: option.splits)

lemma get_storage_logged: "get_storage P model_dir s = (r, s1) \<Longrightarrow> logged s1 = logged s"
  by (auto simp: get_storage_def split: sum.splits if_splits dest!: new_storage_cases)

lemma get_storage_root:
  "get_storage P model_dir s = (Inr st, s1) \<Longrightarrow>
     (model_dir \<noteq> [] \<longrightarrow> root_of st = model_dir)
     \<and> (model_dir = [] \<longrightarrow> get_env P ''MLP_STORAGE_DIR'' None = Inr (root_of st))"
  by (auto simp: get_storage_def split: sum.splits if_splits dest!: new_storage_cases)

lemma get_storage_unknown_type:
  assumes "get_env P ''MLP_STORAGE_TYPE'' None = Inr t" and "t \<noteq> local_name P" and "t \<noteq> s3_name P"
  shows "get_storage P model_dir s =
     (case (if length model_dir = 0 then get_env P ''MLP_STORAGE_DIR'' None else Inr model_dir) of
        Inl e \<Rightarrow> (Inl e, s)
      | Inr d \<Rightarrow> (Inl (Exn ValueError (''storage_type '' @ t @ '' is invalid.'')), s))"
  using assms by (simp add: get_storage_def split: sum.splits)

lemma fit_after_get_storage:
  "get_storage P model_dir s = (Inr st, s1) \<Longrightarrow>
   fit P texts model_dir self s =
     (case fit_try P texts (self\<lparr>storage := st\<rparr>) s1 of
        (None, self2, s2) \<Rightarrow> (None, self2, s2)
      | (Some e, self2, s2) \<Rightarrow>
          if is_Exception e then
            (None, self2, LOGGER_error (''Fit execution error: '' @ str_of e) s2)
          else (Some e, self2, s2))"
  by (simp add: fit_def)

lemma fit_try_build_raises:
  "build_raises P texts = Some e \<Longrightarrow> fit_try P texts self s = (Some e, self, s)"
  by (simp add: fit_try_def)

lemma fit_try_dump_raises:
  "build_raises P texts = None \<Longrightarrow>
   dump_raises P (io s) (storage self) (model_path self) (FittedMLModel (prepare_model_data texts)) = Some e \<Longrightarrow>
   fit_try P texts self s =
     (Some e, self\<lparr>model := FittedMLModel (prepare_model_data texts)\<rparr>,
      s\<lparr>io := io s @ [Dump (storage self) (model_path self) (FittedMLModel (prepare_model_data texts))]\<rparr>)"
  by (simp add: fit_try_def save_state_def)

lemma fit_try_ok:
  "build_raises P texts = None \<Longrightarrow>
   dump_raises P (io s) (storage self) (model_path self) (FittedMLModel (prepare_model_data texts)) = None \<Longrightarrow>
   fit_try P texts self s =
     (None, self\<lparr>model := FittedMLModel (prepare_model_data texts), is_fitted_model := True\<rparr>,
      s\<lparr>io := io s @ [Dump (storage self) (model_path self) (FittedMLModel (prepare_model_data texts))]\<rparr>)"
  by (simp add: fit_try_def save_state_def)

lemma fit_try_frame:
  "fit_try P texts self s = (r, self', s') \<Longrightarrow>
     storage self' = storage self \<and> model_path self' = model_path self \<and> logged s' = logged s"
  by (auto simp: fit_try_def save_state_def Let_def split: option.splits)

lemma fit_try_None:
  "fit_try P texts self s = (None, self', s') \<Longrightarrow>
     model self' = FittedMLModel (prepare_model_data texts) \<and> is_fitted_model self'"
  by (auto simp: fit_try_def save_state_def Let_def split: option.splits)

lemma fit_quiet_success:
  assumes run: "fit P T model_dir self s = (None, self', s')" and quiet: "logged s' = logged s"
  shows "model self' = FittedMLModel (prepare_model_data T) \<and> is_fitted_model self'"
proof -
  obtain r s1 where gs: "get_storage P model_dir s = (r, s1)"
    by fastforce
  from run gs obtain st where st: "r = Inr st"
    by (cases r) (auto simp: fit_def)
  obtain r2 self2 s2 where ft: "fit_try P T (self\<lparr>storage := st\<rparr>) s1 = (r2, self2, s2)"
    using prod_cases3 by blast
  have l2: "logged s2 = logged s"
    using fit_try_frame [OF ft] get_storage_logged [OF gs] by simp
  have "r2 = None"
  proof (cases r2)
    case None
    then show ?thesis .
  next
    case (Some e)
    then show ?thesis
      using run quiet l2 gs st ft
      by (auto simp: fit_after_get_storage LOGGER_error_def split: if_splits)
  qed
  then have "self' = self2"
    using run gs st ft by (simp add: fit_after_get_storage)
  then show ?thesis
    using fit_try_None ft \<open>r2 = None\<close> by blast
qed

lemma fit_get_storage_raises:
  "get_storage P model_dir s = (Inl e, s1) \<Longrightarrow> fit P texts model_dir self s = (Some e, self, s1)"
  by (simp add: fit_def)

lemma fit_try_flag:
  "fit_try P texts self s = (Some e, self', s') \<Longrightarrow> is_fitted_model self' = is_fitted_model self"
  by (auto simp: fit_try_def save_state_def Let_def split: option.splits)

lemma load_state_io:
  "snd (snd (load_state P self s)) = s\<lparr>io := io s @ [Load (storage self) (model_path self)]\<rparr>"
  by (simp add: load_state_def Let_def split: sum.splits option.splits)

lemma init_load_raises_KeyError:
  assumes gs: "get_storage P [] s = (Inr st, s1)"
    and raises: "load_result P (io s1) st ''model.pkl'' = Inl e
      \<or> (\<exists>m. load_result P (io s1) st ''model.pkl'' = Inr m)
        \<and> load_exit_raises P (io s1) st ''model.pkl'' = Some e"
    and key: "is_KeyError e"
  shows "\<exists>self s'. init P s = (Inr self, s') \<and> \<not> is_fitted_model self
    \<and> logged s' = logged s @ [''Unable to load saved state, error message: '' @ str_of e]"
  using raises key get_storage_logged [OF gs]
  by (auto simp: init_def gs load_state_def Let_def LOGGER_error_def)

lemma init_load_returns:
  assumes gs: "get_storage P [] s = (Inr st, s1)"
    and loads: "load_result P (io s1) st ''model.pkl'' = Inr m"
    and exits: "load_exit_raises P (io s1) st ''model.pkl'' = None"
  shows "init P s =
     (Inr \<lparr>model = m, storage = st, model_path = ''model.pkl'', is_fitted_model = True\<rparr>,
      s1\<lparr>io := io s1 @ [Load st ''model.pkl'']\<rparr>)"
  by (simp add: init_def gs load_state_def Let_def loads exits)

lemma prune_state_unknown_type:
  assumes "get_env P ''MLP_STORAGE_TYPE'' None = Inr t" and "t \<noteq> local_name P" and "t \<noteq> s3_name P"
  shows "prune_state P model_dir self s =
     (case (if length model_dir > 0 then Inr model_dir else get_env P ''MLP_STORAGE_DIR'' None) of
        Inl e \<Rightarrow> (Some e, s)
      | Inr d \<Rightarrow> (Some (Exn ValueError (''storage_type '' @ t @ '' is invalid.'')), s))"
  by (simp add: prune_state_def get_storage_unknown_type [OF assms] split: sum.splits)

section \<open>Concrete runs\<close>

lemma run_ab:
  "fit local_platform [''a'', ''b''] [] task0 sys0 =
     (None,
      \<lparr>model = FittedMLModel [(PStr ''0'', ''a''), (PStr ''1'', ''b'')],
       storage = LocalStorage ''/tmp/models'', model_path = ''model.pkl'', is_fitted_model = True\<rparr>,
      \<lparr>io = [New (LocalStorage ''/tmp/models''),
             Dump (LocalStorage ''/tmp/models'') ''model.pkl''
               (FittedMLModel [(PStr ''0'', ''a''), (PStr ''1'', ''b'')])],
       logged = []\<rparr>)"
  by code_simp

lemma task_ab_eq:
  "task_ab = \<lparr>model = FittedMLModel [(PStr ''0'', ''a''), (PStr ''1'', ''b'')],
       storage = LocalStorage ''/tmp/models'', model_path = ''model.pkl'', is_fitted_model = True\<rparr>"
  by (simp add: task_ab_def run_ab)

lemma sys_ab_eq:
  "sys_ab = \<lparr>io = [New (LocalStorage ''/tmp/models''),
             Dump (LocalStorage ''/tmp/models'') ''model.pkl''
               (FittedMLModel [(PStr ''0'', ''a''), (PStr ''1'', ''b'')])],
       logged = []\<rparr>"
  by (simp add: sys_ab_def run_ab)

lemma run_ftp:
  "fit ftp_platform [''a'', ''b''] [] task0 sys0 =
     (Some (Exn ValueError ''storage_type ftp is invalid.''), task0, sys0)"
  by code_simp

lemma get_storage_ftp:
  "get_storage ftp_platform [] sys0 = (Inl (Exn ValueError ''storage_type ftp is invalid.''), sys0)"
  by code_simp

lemma get_storage_dump_fail:
  "get_storage dump_fail_platform [] sys0 =
     (Inr (LocalStorage ''/tmp/models''), sys0\<lparr>io := [New (LocalStorage ''/tmp/models'')]\<rparr>)"
  by code_simp

lemma run_dump_fail:
  "fit dump_fail_platform [''x''] [] task0 sys0 =
     (None, task0\<lparr>model := FittedMLModel [(PStr ''0'', ''x'')]\<rparr>,
      \<lparr>io = [New (LocalStorage ''/tmp/models''),
             Dump (LocalStorage ''/tmp/models'') ''model.pkl'' (FittedMLModel [(PStr ''0'', ''x'')])],
       logged = [''Fit execution error: disk full'']\<rparr>)"
  by code_simp

lemma run_interrupt:
  "fit interrupt_platform [''x''] [] task0 sys0 =
     (Some (Exn NonException ''KeyboardInterrupt''),
      task0\<lparr>model := FittedMLModel [(PStr ''0'', ''x'')]\<rparr>,
      \<lparr>io = [New (LocalStorage ''/tmp/models''),
             Dump (LocalStorage ''/tmp/models'') ''model.pkl'' (FittedMLModel [(PStr ''0'', ''x'')])],
       logged = []\<rparr>)"
  by code_simp

lemma get_storage_build_fail:
  "get_storage build_fail_platform [] sys_ab =
     (Inr (LocalStorage ''/tmp/models''),
      sys_ab\<lparr>io := io sys_ab @ [New (LocalStorage ''/tmp/models'')]\<rparr>)"
  by code_simp

lemma run_build_fail:
  "fit build_fail_platform [''x''] [] task_ab sys_ab =
     (None, task_ab,
      \<lparr>io = io sys_ab @ [New (LocalStorage ''/tmp/models'')],
       logged = [''Fit execution error: out of memory'']\<rparr>)"
  by code_simp

lemma get_storage_local_sys0:
  "get_storage local_platform [] sys0 =
     (Inr (LocalStorage ''/tmp/models''), sys0\<lparr>io := [New (LocalStorage ''/tmp/models'')]\<rparr>)"
  by code_simp

lemma get_storage_local_sys_ab:
  "get_storage local_platform [] sys_ab =
     (Inr (LocalStorage ''/tmp/models''),
      sys_ab\<lparr>io := io sys_ab @ [New (LocalStorage ''/tmp/models'')]\<rparr>)"
  by code_simp

lemma init_local_sys0:
  "init local_platform sys0 =
     (Inr task0,
      \<lparr>io = [New (LocalStorage ''/tmp/models''), Load (LocalStorage ''/tmp/models'') ''model.pkl''],
       logged = [''Unable to load saved state, error message: model.pkl'']\<rparr>)"
  by code_simp

lemma init_local_sys_ab:
  "init local_platform sys_ab =
     (Inr task_ab,
      \<lparr>io = io sys_ab @ [New (LocalStorage ''/tmp/models''),
             Load (LocalStorage ''/tmp/models'') ''model.pkl''],
       logged = []\<rparr>)"
  by code_simp

lemma get_storage_other:
  "get_storage dump_fail_platform ''/other'' sys0 =
     (Inr (LocalStorage ''/other''), sys0\<lparr>io := [New (LocalStorage ''/other'')]\<rparr>)"
  by code_simp

lemma run_other:
  "fit dump_fail_platform [''x''] ''/other'' task0 sys0 =
     (None, task0\<lparr>storage := LocalStorage ''/other'', model := FittedMLModel [(PStr ''0'', ''x'')]\<rparr>,
      \<lparr>io = [New (LocalStorage ''/other''),
             Dump (LocalStorage ''/other'') ''model.pkl'' (FittedMLModel [(PStr ''0'', ''x'')])],
       logged = [''Fit execution error: disk full'']\<rparr>)"
  by code_simp

section \<open>The properties\<close>

text \<open>
  C1, as the code has it. \<^verbatim>\<open>predict\<close> looks its inputs up among the keys of the
  model, and the keys are the positions, not the texts. After a fit that returned and
  logged no error, the task is fitted and, for every position \<open>i\<close> of \<open>T\<close>,
  predicting the decimal string of \<open>i\<close> gives the single result \<open>T ! i\<close>.
\<close>

theorem C1_fit_then_predict_by_index:
  assumes "fit P T model_dir self s = (None, self', s')" and "logged s' = logged s"
  shows "is_fitted self' \<and>
    (\<forall>i<length T. predict self' [str_nat i] = Inr (ItemsCollection [Items [Item (T ! i)]]))"
proof -
  have m: "model self' = FittedMLModel (prepare_model_data T)" and f: "is_fitted_model self'"
    using fit_quiet_success [OF assms] by simp_all
  have "predict self' [str_nat i] = Inr (ItemsCollection [Items [Item (T ! i)]])"
    if "i < length T" for i
  proof -
    have v: "map_of (data (model self')) (PStr (str_nat i)) = Some (T ! i)"
      using that by (simp add: m map_of_prepare_model_data)
    then have "\<forall>t \<in> set [str_nat i]. has_data (model self') (PStr t)"
      by (simp add: has_data_map_of)
    from predict_all_present [OF this] v show ?thesis by simp
  qed
  then show ?thesis using f by (simp add: is_fitted_def)
qed

text \<open>
  C1 at a run: fitting \<open>[a, b]\<close> on an empty local root succeeds, and predicting
  \<open>1\<close> gives \<open>b\<close>.
\<close>

theorem C1_fit_then_predict_by_index_witness:
  "fit local_platform [''a'', ''b''] [] task0 sys0 = (None, task_ab, sys_ab)
   \<and> logged sys_ab = logged sys0
   \<and> is_fitted task_ab
   \<and> predict task_ab [str_nat 1] = Inr (ItemsCollection [Items [Item ([''a'', ''b''] ! 1)]])"
proof -
  have run: "fit local_platform [''a'', ''b''] [] task0 sys0 = (None, task_ab, sys_ab)"
    by (simp add: run_ab task_ab_eq sys_ab_eq)
  have quiet: "logged sys_ab = logged sys0"
    by (simp add: sys_ab_eq sys0_def)
  show ?thesis
    using C1_fit_then_predict_by_index [OF run quiet] run quiet by simp
qed

text \<open>
  C1 as stated fails: after the same successful fit of \<open>[a, b]\<close>, predicting the
  text \<open>a\<close> (the element at position 0) raises instead of returning \<open>a\<close>.
\<close>

theorem C1_predict_by_text_counterexample:
  "fit local_platform [''a'', ''b''] [] task0 sys0 = (None, task_ab, sys_ab)
   \<and> logged sys_ab = logged sys0
   \<and> is_fitted task_ab
   \<and> predict task_ab [[''a'', ''b''] ! 0] = Inl (Exn ValueError ''No such id here, try 0 or 1'')"
proof -
  have "fit local_platform [''a'', ''b''] [] task0 sys0 = (None, task_ab, sys_ab)"
    by (simp add: run_ab task_ab_eq sys_ab_eq)
  moreover have "logged sys_ab = logged sys0"
    by (simp add: sys_ab_eq sys0_def)
  moreover have "is_fitted task_ab"
    by (simp add: task_ab_eq is_fitted_def)
  moreover have
    "predict task_ab [[''a'', ''b''] ! 0] = Inl (Exn ValueError ''No such id here, try 0 or 1'')"
    by (simp add: task_ab_eq predict_def has_data_def dict_in_def)
  ultimately show ?thesis by simp
qed

text \<open>
  C2, as the code has it. \<^verbatim>\<open>fit\<close> resolves the backend before its \<^verbatim>\<open>try\<close>
  block, and the handler is \<^verbatim>\<open>except Exception\<close>. So an exception leaves
  \<^verbatim>\<open>fit\<close> only if backend resolution raised it or if it is not an
  \<^verbatim>\<open>Exception\<close>, and then the fitted flag is as before. When the backend is
  resolved, an \<^verbatim>\<open>Exception\<close> raised by the model build or by the persistence is
  caught: \<^verbatim>\<open>fit\<close> returns normally, the fitted flag is as before, and one error
  line with the text of the exception is logged.
\<close>

theorem C2_fit_guard:
  assumes run: "fit P texts model_dir self s = (r, self', s')"
  shows "(\<forall>e. r = Some e \<longrightarrow>
            (fst (get_storage P model_dir s) = Inl e \<or> \<not> is_Exception e)
            \<and> is_fitted self' = is_fitted self)
    \<and> (\<forall>st s1 e. get_storage P model_dir s = (Inr st, s1)
          \<and> (build_raises P texts = Some e
               \<or> build_raises P texts = None
                 \<and> dump_raises P (io s1) st (model_path self)
                      (FittedMLModel (prepare_model_data texts)) = Some e)
          \<and> is_Exception e \<longrightarrow>
          r = None \<and> is_fitted self' = is_fitted self
          \<and> logged s' = logged s @ [''Fit execution error: '' @ str_of e])"
proof -
  obtain g s1 where gs: "get_storage P model_dir s = (g, s1)"
    by fastforce
  have l1: "logged s1 = logged s"
    using get_storage_logged [OF gs] .
  show ?thesis
  proof (cases g)
    case (Inl e0)
    then show ?thesis
      using run gs by (auto simp: fit_get_storage_raises is_fitted_def)
  next
    case (Inr st)
    obtain r2 self2 s2 where ft: "fit_try P texts (self\<lparr>storage := st\<rparr>) s1 = (r2, self2, s2)"
      using prod_cases3 by blast
    have fr: "logged s2 = logged s"
      using fit_try_frame [OF ft] l1 by simp
    have escapes: "(fst (get_storage P model_dir s) = Inl e \<or> \<not> is_Exception e)
        \<and> is_fitted self' = is_fitted self" if "r = Some e" for e
    proof -
      from that run gs Inr ft have "r2 = Some e" "\<not> is_Exception e" "self' = self2"
        by (auto simp: fit_after_get_storage split: option.splits if_splits)
      then show ?thesis
        using fit_try_flag [of P texts "self\<lparr>storage := st\<rparr>" s1 e self2 s2] ft
        by (simp add: is_fitted_def)
    qed
    have caught: "r = None \<and> is_fitted self' = is_fitted self
          \<and> logged s' = logged s @ [''Fit execution error: '' @ str_of e]"
      if "build_raises P texts = Some e
            \<or> build_raises P texts = None
              \<and> dump_raises P (io s1) st (model_path self)
                   (FittedMLModel (prepare_model_data texts)) = Some e"
        and "is_Exception e" for e
    proof -
      have "r2 = Some e"
        using that(1) ft
        by (auto simp: fit_try_build_raises fit_try_dump_raises)
      then show ?thesis
        using run gs Inr ft that(2) fr
          fit_try_flag [of P texts "self\<lparr>storage := st\<rparr>" s1 e self2 s2]
        by (auto simp: fit_after_get_storage LOGGER_error_def is_fitted_def)
    qed
    show ?thesis
      using escapes caught gs Inr by auto
  qed
qed

text \<open>
  C2 at two runs: an unknown storage type makes \<^verbatim>\<open>fit\<close> raise what backend
  resolution raised; a full disk is caught and logged, and the task stays unfitted.
\<close>

theorem C2_fit_guard_witness:
  "fit ftp_platform [''a'', ''b''] [] task0 sys0 =
      (Some (Exn ValueError ''storage_type ftp is invalid.''), task0, sys0)
   \<and> fst (get_storage ftp_platform [] sys0) = Inl (Exn ValueError ''storage_type ftp is invalid.'')
   \<and> get_storage dump_fail_platform [] sys0 =
       (Inr (LocalStorage ''/tmp/models''), sys0\<lparr>io := [New (LocalStorage ''/tmp/models'')]\<rparr>)
   \<and> build_raises dump_fail_platform [''x''] = None
   \<and> dump_raises dump_fail_platform (io (sys0\<lparr>io := [New (LocalStorage ''/tmp/models'')]\<rparr>))
        (LocalStorage ''/tmp/models'') (model_path task0)
        (FittedMLModel (prepare_model_data [''x''])) = Some (Exn OtherException ''disk full'')
   \<and> is_Exception (Exn OtherException ''disk full'')
   \<and> fst (fit dump_fail_platform [''x''] [] task0 sys0) = None
   \<and> is_fitted (fst (snd (fit dump_fail_platform [''x''] [] task0 sys0))) = is_fitted task0
   \<and> logged (snd (snd (fit dump_fail_platform [''x''] [] task0 sys0))) =
       logged sys0 @ [''Fit execution error: '' @ str_of (Exn OtherException ''disk full'')]"
proof -
  have b: "build_raises dump_fail_platform [''x''] = None"
    and d: "dump_raises dump_fail_platform (io (sys0\<lparr>io := [New (LocalStorage ''/tmp/models'')]\<rparr>))
        (LocalStorage ''/tmp/models'') (model_path task0)
        (FittedMLModel (prepare_model_data [''x''])) = Some (Exn OtherException ''disk full'')"
    and x: "is_Exception (Exn OtherException ''disk full'')"
    by (simp_all add: dump_fail_platform_def local_platform_def mem_platform_def is_Exception_def)
  note caught = C2_fit_guard [OF run_dump_fail, THEN conjunct2, rule_format,
      OF conjI [OF get_storage_dump_fail conjI [OF disjI2 [OF conjI [OF b d]] x]]]
  note escapes = C2_fit_guard [OF run_ftp, THEN conjunct1, rule_format, OF refl]
  show ?thesis
    using caught escapes b d x
    by (simp add: run_ftp get_storage_ftp get_storage_dump_fail run_dump_fail)
qed

text \<open>
  C2 as stated fails: with the storage type \<open>ftp\<close> the \<^verbatim>\<open>ValueError\<close> of backend
  resolution leaves \<^verbatim>\<open>fit\<close>, and so does a \<^verbatim>\<open>KeyboardInterrupt\<close> raised while
  the model is written.
\<close>

theorem C2_fit_raises_counterexample:
  "fst (fit ftp_platform [''a'', ''b''] [] task0 sys0) =
     Some (Exn ValueError ''storage_type ftp is invalid.'')
   \<and> fst (fit interrupt_platform [''x''] [] task0 sys0) =
     Some (Exn NonException ''KeyboardInterrupt'')"
  by (simp add: run_ftp run_interrupt)

text \<open>
  C3, as the code has it. When every text before \<open>x\<close> is a key of the model and
  \<open>x\<close> is not, \<^verbatim>\<open>predict\<close> raises and returns no result at all; the exception is
  a \<^verbatim>\<open>ValueError\<close> whose message is the same for every \<open>x\<close>.
\<close>

theorem C3_predict_first_absent:
  assumes "\<forall>t \<in> set pre. has_data (model self) (PStr t)"
    and "\<not> has_data (model self) (PStr x)"
  shows "predict self (pre @ x # post) = Inl (Exn ValueError ''No such id here, try 0 or 1'')"
  using assms predict_loop_present [of pre "model self" "x # post" "[]"]
  by (simp add: predict_def)

text \<open>
  C3 at a run: with the keys \<open>0\<close> and \<open>1\<close>, the batch \<open>[0, z, 1]\<close> raises at
  \<open>z\<close>.
\<close>

theorem C3_predict_first_absent_witness:
  "has_data (model task_ab) (PStr ''0'')
   \<and> \<not> has_data (model task_ab) (PStr ''z'')
   \<and> predict task_ab ([''0''] @ ''z'' # [''1'']) = Inl (Exn ValueError ''No such id here, try 0 or 1'')"
proof -
  have m: "model task_ab = FittedMLModel [(PStr ''0'', ''a''), (PStr ''1'', ''b'')]"
    by code_simp
  have present: "\<forall>t \<in> set [''0'']. has_data (model task_ab) (PStr t)"
    and absent: "\<not> has_data (model task_ab) (PStr ''z'')"
    by (simp_all add: m has_data_def dict_in_def)
  show ?thesis
    using C3_predict_first_absent [OF present absent, of "[''1'']"] present absent by simp
qed

text \<open>
  C3 as stated fails: the message raised for the absent text \<open>z\<close> does not contain
  \<open>z\<close>.
\<close>

theorem C3_message_counterexample:
  "\<not> has_data (model task_ab) (PStr ''z'')
   \<and> predict task_ab [''0'', ''z'', ''1''] = Inl (Exn ValueError ''No such id here, try 0 or 1'')
   \<and> \<not> sublist ''z'' (str_of (Exn ValueError ''No such id here, try 0 or 1''))"
  by code_simp

text \<open>
  C4. With the backend resolved: if the model build raises, the task holds the model
  and the fitted flag it held before the call; if the build succeeds and the
  persistence raises, the task holds the new model, built from \<open>texts\<close>, and the
  fitted flag it had before.
\<close>

theorem C4_fit_model_replacement:
  assumes gs: "get_storage P model_dir s = (Inr st, s1)"
    and run: "fit P texts model_dir self s = (r, self', s')"
  shows "(build_raises P texts = Some e \<longrightarrow>
            model self' = model self \<and> is_fitted self' = is_fitted self)
    \<and> (build_raises P texts = None
        \<and> dump_raises P (io s1) st (model_path self)
             (FittedMLModel (prepare_model_data texts)) = Some e \<longrightarrow>
          model self' = FittedMLModel (prepare_model_data texts)
          \<and> is_fitted self' = is_fitted self)"
proof (intro conjI impI)
  assume b: "build_raises P texts = Some e"
  have "fit_try P texts (self\<lparr>storage := st\<rparr>) s1 = (Some e, self\<lparr>storage := st\<rparr>, s1)"
    using b by (rule fit_try_build_raises)
  then have "self' = self\<lparr>storage := st\<rparr>"
    using run gs by (simp add: fit_after_get_storage split: if_splits)
  then show "model self' = model self" and "is_fitted self' = is_fitted self"
    by (simp_all add: is_fitted_def)
next
  assume "build_raises P texts = None
    \<and> dump_raises P (io s1) st (model_path self)
         (FittedMLModel (prepare_model_data texts)) = Some e"
  then have "fit_try P texts (self\<lparr>storage := st\<rparr>) s1 =
      (Some e, self\<lparr>storage := st, model := FittedMLModel (prepare_model_data texts)\<rparr>,
       s1\<lparr>io := io s1 @ [Dump st (model_path self) (FittedMLModel (prepare_model_data texts))]\<rparr>)"
    by (simp add: fit_try_dump_raises)
  then have "self' = self\<lparr>storage := st, model := FittedMLModel (prepare_model_data texts)\<rparr>"
    using run gs by (simp add: fit_after_get_storage split: if_splits)
  then show "model self' = FittedMLModel (prepare_model_data texts)"
    and "is_fitted self' = is_fitted self"
    by (simp_all add: is_fitted_def)
qed

text \<open>
  C4 at two runs: a build that fails on a task fitted from \<open>[a, b]\<close> leaves that
  model; a write that fails on a new task leaves the model built from \<open>[x]\<close> and the
  task unfitted.
\<close>

theorem C4_fit_model_replacement_witness:
  "get_storage build_fail_platform [] sys_ab =
     (Inr (LocalStorage ''/tmp/models''),
      sys_ab\<lparr>io := io sys_ab @ [New (LocalStorage ''/tmp/models'')]\<rparr>)
   \<and> build_raises build_fail_platform [''x''] = Some (Exn OtherException ''out of memory'')
   \<and> model (fst (snd (fit build_fail_platform [''x''] [] task_ab sys_ab))) = model task_ab
   \<and> is_fitted (fst (snd (fit build_fail_platform [''x''] [] task_ab sys_ab))) = is_fitted task_ab
   \<and> model task_ab = FittedMLModel [(PStr ''0'', ''a''), (PStr ''1'', ''b'')]
   \<and> get_storage dump_fail_platform [] sys0 =
       (Inr (LocalStorage ''/tmp/models''), sys0\<lparr>io := [New (LocalStorage ''/tmp/models'')]\<rparr>)
   \<and> build_raises dump_fail_platform [''x''] = None
   \<and> dump_raises dump_fail_platform (io (sys0\<lparr>io := [New (LocalStorage ''/tmp/models'')]\<rparr>))
        (LocalStorage ''/tmp/models'') (model_path task0)
        (FittedMLModel (prepare_model_data [''x''])) = Some (Exn OtherException ''disk full'')
   \<and> model (fst (snd (fit dump_fail_platform [''x''] [] task0 sys0))) =
       FittedMLModel (prepare_model_data [''x''])
   \<and> is_fitted (fst (snd (fit dump_fail_platform [''x''] [] task0 sys0))) = is_fitted task0
   \<and> prepare_model_data [''x''] = [(PStr ''0'', ''x'')]
   \<and> model task0 = FittedMLModel []"
proof -
  have b1: "build_raises build_fail_platform [''x''] = Some (Exn OtherException ''out of memory'')"
    by (simp add: build_fail_platform_def)
  have b2: "build_raises dump_fail_platform [''x''] = None"
    and d2: "dump_raises dump_fail_platform (io (sys0\<lparr>io := [New (LocalStorage ''/tmp/models'')]\<rparr>))
        (LocalStorage ''/tmp/models'') (model_path task0)
        (FittedMLModel (prepare_model_data [''x''])) = Some (Exn OtherException ''disk full'')"
    by (simp_all add: dump_fail_platform_def local_platform_def mem_platform_def)
  have p: "prepare_model_data [''x''] = [(PStr ''0'', ''x'')]"
    by code_simp
  note first = C4_fit_model_replacement [OF get_storage_build_fail run_build_fail,
      THEN conjunct1, rule_format, OF b1]
  note second = C4_fit_model_replacement [OF get_storage_dump_fail run_dump_fail,
      THEN conjunct2, rule_format, OF conjI [OF b2 d2]]
  have m1: "model task_ab = FittedMLModel [(PStr ''0'', ''a''), (PStr ''1'', ''b'')]"
    by (simp add: task_ab_eq)
  have m0: "model task0 = FittedMLModel []"
    by (simp add: task0_def)
  show ?thesis
    using first second b1 b2 d2 p m1 m0
    by (simp add: get_storage_build_fail get_storage_dump_fail run_build_fail run_dump_fail)
qed

text \<open>
  C5. With the backend resolved, \<^verbatim>\<open>__init__\<close> tries to load the saved state. If the
  load raises a \<^verbatim>\<open>KeyError\<close>, the constructor does not raise: it returns a task
  that is not fitted, and logs one error line. If the load completes, the constructor
  returns a fitted task holding the model that was read.
\<close>

theorem C5_init_restores_state:
  assumes gs: "get_storage P [] s = (Inr st, s1)"
  shows "((load_result P (io s1) st ''model.pkl'' = Inl e
           \<or> (\<exists>m. load_result P (io s1) st ''model.pkl'' = Inr m)
             \<and> load_exit_raises P (io s1) st ''model.pkl'' = Some e)
          \<and> is_KeyError e \<longrightarrow>
            (\<exists>self s'. init P s = (Inr self, s') \<and> \<not> is_fitted self
               \<and> logged s' =
                   logged s @ [''Unable to load saved state, error message: '' @ str_of e]))
    \<and> (load_result P (io s1) st ''model.pkl'' = Inr m
        \<and> load_exit_raises P (io s1) st ''model.pkl'' = None \<longrightarrow>
            (\<exists>self s'. init P s = (Inr self, s') \<and> is_fitted self \<and> model self = m
               \<and> logged s' = logged s))"
proof (intro conjI impI)
  assume "(load_result P (io s1) st ''model.pkl'' = Inl e
           \<or> (\<exists>m. load_result P (io s1) st ''model.pkl'' = Inr m)
             \<and> load_exit_raises P (io s1) st ''model.pkl'' = Some e)
          \<and> is_KeyError e"
  then show "\<exists>self s'. init P s = (Inr self, s') \<and> \<not> is_fitted self
      \<and> logged s' = logged s @ [''Unable to load saved state, error message: '' @ str_of e]"
    using init_load_raises_KeyError [OF gs, of e] by (simp add: is_fitted_def)
next
  assume "load_result P (io s1) st ''model.pkl'' = Inr m
    \<and> load_exit_raises P (io s1) st ''model.pkl'' = None"
  then show "\<exists>self s'. init P s = (Inr self, s') \<and> is_fitted self \<and> model self = m
      \<and> logged s' = logged s"
    using init_load_returns [OF gs, of m] get_storage_logged [OF gs]
    by (simp add: is_fitted_def)
qed

text \<open>
  C5 at two runs: on an empty root the read raises a \<^verbatim>\<open>KeyError\<close> and the task
  starts unfitted; on the root that a fit has written, it starts fitted.
\<close>

theorem C5_init_restores_state_witness:
  "get_storage local_platform [] sys0 =
     (Inr (LocalStorage ''/tmp/models''), sys0\<lparr>io := [New (LocalStorage ''/tmp/models'')]\<rparr>)
   \<and> load_result local_platform (io (sys0\<lparr>io := [New (LocalStorage ''/tmp/models'')]\<rparr>))
        (LocalStorage ''/tmp/models'') ''model.pkl'' = Inl blob_missing
   \<and> is_KeyError blob_missing
   \<and> fst (init local_platform sys0) = Inr task0
   \<and> \<not> is_fitted task0
   \<and> logged (snd (init local_platform sys0)) =
       logged sys0 @ [''Unable to load saved state, error message: '' @ str_of blob_missing]
   \<and> get_storage local_platform [] sys_ab =
       (Inr (LocalStorage ''/tmp/models''),
        sys_ab\<lparr>io := io sys_ab @ [New (LocalStorage ''/tmp/models'')]\<rparr>)
   \<and> load_result local_platform
        (io (sys_ab\<lparr>io := io sys_ab @ [New (LocalStorage ''/tmp/models'')]\<rparr>))
        (LocalStorage ''/tmp/models'') ''model.pkl'' = Inr (model task_ab)
   \<and> load_exit_raises local_platform
        (io (sys_ab\<lparr>io := io sys_ab @ [New (LocalStorage ''/tmp/models'')]\<rparr>))
        (LocalStorage ''/tmp/models'') ''model.pkl'' = None
   \<and> fst (init local_platform sys_ab) = Inr task_ab
   \<and> is_fitted task_ab"
proof -
  have l0: "load_result local_platform (io (sys0\<lparr>io := [New (LocalStorage ''/tmp/models'')]\<rparr>))
        (LocalStorage ''/tmp/models'') ''model.pkl'' = Inl blob_missing"
    by (simp add: local_platform_def mem_platform_def stored_def)
  have k: "is_KeyError blob_missing"
    by (simp add: blob_missing_def is_KeyError_def)
  have l1: "load_result local_platform
        (io (sys_ab\<lparr>io := io sys_ab @ [New (LocalStorage ''/tmp/models'')]\<rparr>))
        (LocalStorage ''/tmp/models'') ''model.pkl'' = Inr (model task_ab)"
    by (simp add: local_platform_def mem_platform_def stored_def sys_ab_eq task_ab_eq)
  have x1: "load_exit_raises local_platform
        (io (sys_ab\<lparr>io := io sys_ab @ [New (LocalStorage ''/tmp/models'')]\<rparr>))
        (LocalStorage ''/tmp/models'') ''model.pkl'' = None"
    by (simp add: local_platform_def mem_platform_def)
  note missing = C5_init_restores_state [OF get_storage_local_sys0, THEN conjunct1, rule_format,
      OF conjI [OF disjI1 [OF l0] k]]
  note restored = C5_init_restores_state [OF get_storage_local_sys_ab, THEN conjunct2,
      rule_format, OF conjI [OF l1 x1]]
  have f0: "\<not> is_fitted task0" and f1: "is_fitted task_ab"
    by (simp_all add: task0_def task_ab_eq is_fitted_def)
  have g0: "logged (snd (init local_platform sys0)) =
       logged sys0 @ [''Unable to load saved state, error message: '' @ str_of blob_missing]"
    using missing by auto
  show ?thesis
    using restored l0 k l1 x1 f0 f1 g0
    by (simp add: get_storage_local_sys0 get_storage_local_sys_ab init_local_sys0
        init_local_sys_ab)
qed

text \<open>
  C6. When the configured storage type is neither the local nor the remote backend's
  name, \<^verbatim>\<open>_get_storage\<close>, \<^verbatim>\<open>__init__\<close>, \<^verbatim>\<open>fit\<close> and
  \<^verbatim>\<open>prune_state\<close> all raise and leave the record of storage calls (and the task)
  as it was: no storage object is made and none is used. When the root is given, by
  the override or by the environment, what they raise is the \<^verbatim>\<open>ValueError\<close> that
  names the storage type.
\<close>

theorem C6_unknown_storage_type:
  assumes t: "get_env P ''MLP_STORAGE_TYPE'' None = Inr t"
    and l: "t \<noteq> local_name P" and r: "t \<noteq> s3_name P"
  shows "(\<exists>e. get_storage P model_dir s = (Inl e, s))
    \<and> (\<exists>e. init P s = (Inl e, s))
    \<and> (\<exists>e. fit P texts model_dir self s = (Some e, self, s))
    \<and> (\<exists>e. prune_state P model_dir self s = (Some e, s))
    \<and> (model_dir \<noteq> [] \<or> get_env P ''MLP_STORAGE_DIR'' None = Inr d \<longrightarrow>
          get_storage P model_dir s =
            (Inl (Exn ValueError (''storage_type '' @ t @ '' is invalid.'')), s)
          \<and> fit P texts model_dir self s =
            (Some (Exn ValueError (''storage_type '' @ t @ '' is invalid.'')), self, s)
          \<and> prune_state P model_dir self s =
            (Some (Exn ValueError (''storage_type '' @ t @ '' is invalid.'')), s))
    \<and> (get_env P ''MLP_STORAGE_DIR'' None = Inr d \<longrightarrow>
          init P s = (Inl (Exn ValueError (''storage_type '' @ t @ '' is invalid.'')), s))"
proof -
  note gs = get_storage_unknown_type [OF t l r]
  note pr = prune_state_unknown_type [OF t l r]
  have any: "\<exists>e. get_storage P md s = (Inl e, s)" for md
    by (simp add: gs split: sum.splits)
  have "\<exists>e. init P s = (Inl e, s)"
    using any [of "[]"] by (auto simp: init_def)
  moreover have "\<exists>e. fit P texts model_dir self s = (Some e, self, s)"
    using any [of model_dir] by (auto simp: fit_def)
  moreover have "\<exists>e. prune_state P model_dir self s = (Some e, s)"
    by (simp add: pr split: sum.splits)
  moreover have "get_storage P model_dir s =
            (Inl (Exn ValueError (''storage_type '' @ t @ '' is invalid.'')), s)
          \<and> fit P texts model_dir self s =
            (Some (Exn ValueError (''storage_type '' @ t @ '' is invalid.'')), self, s)
          \<and> prune_state P model_dir self s =
            (Some (Exn ValueError (''storage_type '' @ t @ '' is invalid.'')), s)"
    if "model_dir \<noteq> [] \<or> get_env P ''MLP_STORAGE_DIR'' None = Inr d"
  proof -
    have g: "get_storage P model_dir s =
            (Inl (Exn ValueError (''storage_type '' @ t @ '' is invalid.'')), s)"
      using that by (auto simp: gs)
    then show ?thesis
      using that by (auto simp: fit_get_storage_raises pr)
  qed
  moreover have "init P s = (Inl (Exn ValueError (''storage_type '' @ t @ '' is invalid.'')), s)"
    if "get_env P ''MLP_STORAGE_DIR'' None = Inr d"
    using that by (simp add: init_def gs)
  ultimately show ?thesis
    using any [of model_dir] by blast
qed

text \<open>
  C6 at a run: with the storage type \<open>ftp\<close> the four operations raise the same
  \<^verbatim>\<open>ValueError\<close> and make no storage call.
\<close>

theorem C6_unknown_storage_type_witness:
  "get_env ftp_platform ''MLP_STORAGE_TYPE'' None = Inr ''ftp''
   \<and> ''ftp'' \<noteq> local_name ftp_platform
   \<and> ''ftp'' \<noteq> s3_name ftp_platform
   \<and> get_env ftp_platform ''MLP_STORAGE_DIR'' None = Inr ''/tmp/models''
   \<and> get_storage ftp_platform [] sys0 =
       (Inl (Exn ValueError (''storage_type '' @ ''ftp'' @ '' is invalid.'')), sys0)
   \<and> init ftp_platform sys0 =
       (Inl (Exn ValueError (''storage_type '' @ ''ftp'' @ '' is invalid.'')), sys0)
   \<and> fit ftp_platform [''a'', ''b''] [] task0 sys0 =
       (Some (Exn ValueError (''storage_type '' @ ''ftp'' @ '' is invalid.'')), task0, sys0)
   \<and> prune_state ftp_platform [] task0 sys0 =
       (Some (Exn ValueError (''storage_type '' @ ''ftp'' @ '' is invalid.'')), sys0)"
proof -
  have t: "get_env ftp_platform ''MLP_STORAGE_TYPE'' None = Inr ''ftp''"
    and d: "get_env ftp_platform ''MLP_STORAGE_DIR'' None = Inr ''/tmp/models''"
    and l: "''ftp'' \<noteq> local_name ftp_platform"
    and r: "''ftp'' \<noteq> s3_name ftp_platform"
    by (simp_all add: ftp_platform_def mem_platform_def ftp_env_def)
  note all = C6_unknown_storage_type [OF t l r, of "[]" sys0 "[''a'', ''b'']" task0 "''/tmp/models''"]
  note byroot = all [THEN conjunct2, THEN conjunct2, THEN conjunct2, THEN conjunct2,
      THEN conjunct1, rule_format, OF disjI2 [OF d]]
  note atinit = all [THEN conjunct2, THEN conjunct2, THEN conjunct2, THEN conjunct2,
      THEN conjunct2, rule_format, OF d]
  show ?thesis
    using byroot atinit t d l r by simp
qed

text \<open>
  C7. \<^verbatim>\<open>_prepare_model_data\<close> returns the dictionary that has, in input order, one
  entry for each position \<open>i\<close> of \<open>texts\<close>: the key is the decimal string of \<open>i\<close>
  (a string that reads back as \<open>i\<close>), the value is \<open>texts ! i\<close>, whatever the text
  is. No entry is merged with another: there are as many entries as texts and the keys
  are distinct.
\<close>

theorem C7_prepare_model_data:
  "prepare_model_data texts = map (\<lambda>i. (PStr (str_nat i), texts ! i)) [0..<length texts]
   \<and> length (prepare_model_data texts) = length texts
   \<and> distinct (map fst (prepare_model_data texts))
   \<and> nat_of_str (str_nat i) = i"
  using prepare_model_data_eq [of texts] prepare_model_data_keys_distinct [of texts]
    nat_of_str_str_nat [of i]
  by simp

text \<open>
  C8. For a string key that the model has, \<^verbatim>\<open>FittedMLModel.predict\<close> returns the
  value mapped to it; for a key that \<^verbatim>\<open>has_data\<close> does not find, it returns the
  placeholder string and does not raise.
\<close>

theorem C8_model_predict:
  "(has_data m (PStr k) \<longrightarrow>
      (\<exists>v. map_of (data m) (PStr k) = Some v \<and> FittedMLModel_predict m (PStr k) = Inr v))
   \<and> (\<not> has_data m key \<longrightarrow> FittedMLModel_predict m key = Inr placeholder)"
  by (auto simp: has_data_map_of predict_str_key predict_absent)

text \<open>
  C8 at a run: in the model fitted from \<open>[a, b]\<close> the key \<open>1\<close> gives \<open>b\<close> and
  the key \<open>b\<close> gives the placeholder.
\<close>

theorem C8_model_predict_witness:
  "has_data (model task_ab) (PStr ''1'')
   \<and> map_of (data (model task_ab)) (PStr ''1'') = Some ''b''
   \<and> FittedMLModel_predict (model task_ab) (PStr ''1'') = Inr ''b''
   \<and> \<not> has_data (model task_ab) (PStr ''b'')
   \<and> FittedMLModel_predict (model task_ab) (PStr ''b'') = Inr placeholder"
proof -
  have m: "model task_ab = FittedMLModel [(PStr ''0'', ''a''), (PStr ''1'', ''b'')]"
    by code_simp
  have present: "has_data (model task_ab) (PStr ''1'')"
    and absent: "\<not> has_data (model task_ab) (PStr ''b'')"
    by (simp_all add: m has_data_def dict_in_def)
  show ?thesis
    using C8_model_predict [of "model task_ab" "''1''" "PStr ''b''"] present absent
    by (simp add: m)
qed

text \<open>
  C9. When backend resolution returns a handle, the task holds that handle after
  \<^verbatim>\<open>fit\<close>, whatever the build and the persistence did: its root is the override,
  or the configured root when the override is empty, and a later \<^verbatim>\<open>_save_state\<close>
  or \<^verbatim>\<open>_load_state\<close> goes to that handle.
\<close>

theorem C9_fit_rebinds_storage:
  assumes gs: "get_storage P model_dir s = (Inr st, s1)"
    and run: "fit P texts model_dir self s = (r, self', s')"
  shows "storage self' = st \<and> model_path self' = model_path self
    \<and> (model_dir \<noteq> [] \<longrightarrow> root_of st = model_dir)
    \<and> (model_dir = [] \<longrightarrow> get_env P ''MLP_STORAGE_DIR'' None = Inr (root_of st))
    \<and> snd (save_state P self' s2) = s2\<lparr>io := io s2 @ [Dump st (model_path self) (model self')]\<rparr>
    \<and> snd (snd (load_state P self' s2)) = s2\<lparr>io := io s2 @ [Load st (model_path self)]\<rparr>"
proof -
  obtain r2 self2 s3 where ft: "fit_try P texts (self\<lparr>storage := st\<rparr>) s1 = (r2, self2, s3)"
    using prod_cases3 by blast
  have "self' = self2"
    using run gs ft by (auto simp: fit_after_get_storage split: option.splits if_splits)
  then have frame: "storage self' = st" "model_path self' = model_path self"
    using fit_try_frame [OF ft] by simp_all
  have "snd (save_state P self' s2) = s2\<lparr>io := io s2 @ [Dump st (model_path self) (model self')]\<rparr>"
    by (simp add: save_state_def frame)
  moreover have "snd (snd (load_state P self' s2)) = s2\<lparr>io := io s2 @ [Load st (model_path self)]\<rparr>"
    by (simp add: load_state_io frame)
  ultimately show ?thesis
    using frame get_storage_root [OF gs] by simp
qed

text \<open>
  C9 at a run: a fit with the override \<open>/other\<close> whose write fails leaves the task
  unfitted and bound to \<open>/other\<close>, where the next load reads.
\<close>

theorem C9_fit_rebinds_storage_witness:
  "get_storage dump_fail_platform ''/other'' sys0 =
     (Inr (LocalStorage ''/other''), sys0\<lparr>io := [New (LocalStorage ''/other'')]\<rparr>)
   \<and> storage task0 = LocalStorage ''/tmp/models''
   \<and> \<not> is_fitted (fst (snd (fit dump_fail_platform [''x''] ''/other'' task0 sys0)))
   \<and> logged (snd (snd (fit dump_fail_platform [''x''] ''/other'' task0 sys0))) =
       [''Fit execution error: disk full'']
   \<and> storage (fst (snd (fit dump_fail_platform [''x''] ''/other'' task0 sys0))) =
       LocalStorage ''/other''
   \<and> root_of (LocalStorage ''/other'') = ''/other''
   \<and> snd (snd (load_state dump_fail_platform
        (fst (snd (fit dump_fail_platform [''x''] ''/other'' task0 sys0))) sys0)) =
       sys0\<lparr>io := io sys0 @ [Load (LocalStorage ''/other'') (model_path task0)]\<rparr>"
proof -
  note all = C9_fit_rebinds_storage [OF get_storage_other run_other, of sys0]
  have nonempty: "''/other'' \<noteq> []"
    by simp
  note root = all [THEN conjunct2, THEN conjunct2, THEN conjunct1, rule_format, OF nonempty]
  have old: "storage task0 = LocalStorage ''/tmp/models''"
    by (simp add: task0_def)
  have unfitted: "\<not> is_fitted (fst (snd (fit dump_fail_platform [''x''] ''/other'' task0 sys0)))"
    by (simp add: run_other is_fitted_def) (simp add: task0_def)
  show ?thesis
    using all root old unfitted by (simp add: get_storage_other run_other)
qed

text \<open>
  C10. For a string key \<open>k\<close>, \<^verbatim>\<open>str(k)\<close> is \<open>k\<close>, so the membership test on
  the raw key and the lookup of \<^verbatim>\<open>str(k)\<close> agree: \<^verbatim>\<open>FittedMLModel.predict\<close>
  returns a value, never an exception, and that value is the one stored under \<open>k\<close> or
  the placeholder.
\<close>

theorem C10_predict_str_total:
  "PStr (py_str (PStr k)) = PStr k
   \<and> has_data m (PStr (py_str (PStr k))) = has_data m (PStr k)
   \<and> (\<exists>v. FittedMLModel_predict m (PStr k) = Inr v
          \<and> (map_of (data m) (PStr k) = Some v \<or> v = placeholder))"
  by (auto simp: predict_str_key split: option.splits)

end
